theory Spec2Isabelle
  imports Complex_Main "HOL-Library.Sublist" "HOL-Library.Monad_Syntax"
begin

section \<open>Python strings\<close>

text \<open>
  \<^verbatim>\<open>s.endswith(t)\<close> is \<^const>\<open>suffix\<close>. \<^verbatim>\<open>s.replace(old, new)\<close> scans from the left and
  replaces every non-overlapping occurrence of \<open>old\<close>; the source only calls it with a
  non-empty literal \<open>old\<close>, and for an empty \<open>old\<close> the model returns the string unchanged.
\<close>

definition endswith :: "string \<Rightarrow> string \<Rightarrow> bool" where
  "endswith s t = suffix t s"

function replace :: "string \<Rightarrow> string \<Rightarrow> string \<Rightarrow> string" where
  "replace old new [] = []"
| "replace old new (c # cs) =
     (if old \<noteq> [] \<and> prefix old (c # cs)
      then new @ replace old new (drop (length old) (c # cs))
      else c # replace old new cs)"
  by pat_completeness auto
termination
  by (relation "measure (\<lambda>(old, new, s). length s)") (auto simp: neq_Nil_conv)

text \<open>Decimal rendering of a natural number, as \<^verbatim>\<open>str(n)\<close> and \<^verbatim>\<open>f"{n}"\<close> print it.\<close>

definition digit_char :: "nat \<Rightarrow> char" where
  "digit_char d = ''0123456789'' ! d"

fun str_nat :: "nat \<Rightarrow> string" where
  "str_nat n = (if n < 10 then [digit_char n] else str_nat (n div 10) @ [digit_char (n mod 10)])"

declare str_nat.simps [simp del]



section \<open>The datetime library\<close>

text \<open>
  A \<^verbatim>\<open>timedelta\<close> is a whole number of microseconds. \<^verbatim>\<open>total_seconds()\<close> is modelled
  exactly, as a rational number (the source computes it as a float).
\<close>

type_synonym timedelta = int

definition timedelta_hours :: "int \<Rightarrow> timedelta" where
  "timedelta_hours h = h * 3600000000"

definition timedelta_days :: "int \<Rightarrow> timedelta" where
  "timedelta_days d = d * 86400000000"

definition total_seconds :: "timedelta \<Rightarrow> rat" where
  "total_seconds td = of_int td / 1000000"

text \<open>
  A \<^verbatim>\<open>datetime\<close> is its wall-clock reading, counted in microseconds from
  0001-01-01T00:00:00, and its \<^verbatim>\<open>tzinfo\<close>: \<open>None\<close> for a naive value, otherwise the UTC
  offset in microseconds.
\<close>

record datetime =
  wall :: int
  tzinfo :: "int option"

definition day_us :: int where
  "day_us = 86400000000"

text \<open>The first microsecond after 9999-12-31T23:59:59.999999.\<close>

definition max_wall :: int where
  "max_wall = 3652059 * 86400000000"

definition in_range :: "int \<Rightarrow> bool" where
  "in_range w \<longleftrightarrow> 0 \<le> w \<and> w < max_wall"

subsection \<open>The proleptic Gregorian calendar\<close>

definition is_leap :: "nat \<Rightarrow> bool" where
  "is_leap year \<longleftrightarrow> year mod 4 = 0 \<and> (year mod 100 \<noteq> 0 \<or> year mod 400 = 0)"

definition days_before_year :: "nat \<Rightarrow> nat" where
  "days_before_year year = (let y = year - 1 in y * 365 + y div 4 - y div 100 + y div 400)"

definition days_in_month :: "nat \<Rightarrow> nat \<Rightarrow> nat" where
  "days_in_month year month =
     (if month = 2 \<and> is_leap year then 29
      else [31, 28, 31, 30, 31, 30, 31, 31, 30, 31, 30, 31] ! (month - 1))"

definition days_before_month :: "nat \<Rightarrow> nat \<Rightarrow> nat" where
  "days_before_month year month =
     [0, 31, 59, 90, 120, 151, 181, 212, 243, 273, 304, 334] ! (month - 1)
       + (if month > 2 \<and> is_leap year then 1 else 0)"

definition ymd2ord :: "nat \<Rightarrow> nat \<Rightarrow> nat \<Rightarrow> nat" where
  "ymd2ord year month day = days_before_year year + days_before_month year month + day"

text \<open>The constructor: every field is range-checked, a bad field raises \<^verbatim>\<open>ValueError\<close>.\<close>

definition datetime_new ::
  "nat \<Rightarrow> nat \<Rightarrow> nat \<Rightarrow> nat \<Rightarrow> nat \<Rightarrow> nat \<Rightarrow> nat \<Rightarrow> int option \<Rightarrow> datetime option" where
  "datetime_new year month day hour minute second microsecond tz =
     (if 1 \<le> year \<and> year \<le> 9999 \<and> 1 \<le> month \<and> month \<le> 12
         \<and> 1 \<le> day \<and> day \<le> days_in_month year month
         \<and> hour < 24 \<and> minute < 60 \<and> second < 60 \<and> microsecond < 1000000
      then Some \<lparr>wall = ((int (ymd2ord year month day) - 1) * 86400
                            + int hour * 3600 + int minute * 60 + int second) * 1000000
                          + int microsecond,
                 tzinfo = tz\<rparr>
      else None)"

subsection \<open>\<^verbatim>\<open>datetime.fromisoformat\<close>\<close>

text \<open>
  The parser of Python 3.7 to 3.10, which the source is written for (it widens a bare
  \<^verbatim>\<open>+00\<close> to \<^verbatim>\<open>+00:00\<close> before parsing): \<^verbatim>\<open>YYYY-MM-DD\<close>, one separator character,
  \<^verbatim>\<open>HH[:MM[:SS[.fff[fff]]]]\<close> and an optional offset \<^verbatim>\<open>+HH:MM[:SS[.ffffff]]\<close>.
  \<open>None\<close> stands for the \<^verbatim>\<open>ValueError\<close> it raises.
\<close>

definition digit_val :: "char \<Rightarrow> nat option" where
  "digit_val c = (let n = (of_char c :: nat) in if 48 \<le> n \<and> n \<le> 57 then Some (n - 48) else None)"

fun parse_digits_acc :: "nat \<Rightarrow> string \<Rightarrow> nat option" where
  "parse_digits_acc acc [] = Some acc"
| "parse_digits_acc acc (c # cs) =
     (case digit_val c of None \<Rightarrow> None | Some d \<Rightarrow> parse_digits_acc (10 * acc + d) cs)"

definition parse_digits :: "nat \<Rightarrow> string \<Rightarrow> nat option" where
  "parse_digits n s = (if length s < n \<or> n = 0 then None else parse_digits_acc 0 (take n s))"

definition parse_isoformat_date :: "string \<Rightarrow> (nat \<times> nat \<times> nat) option" where
  "parse_isoformat_date dtstr =
     do {
       year \<leftarrow> parse_digits 4 dtstr;
       month \<leftarrow> parse_digits 2 (drop 5 dtstr);
       day \<leftarrow> parse_digits 2 (drop 8 dtstr);
       if take 1 (drop 4 dtstr) = ''-'' \<and> take 1 (drop 7 dtstr) = ''-''
       then Some (year, month, day) else None
     }"

definition parse_fraction :: "string \<Rightarrow> nat option" where
  "parse_fraction s =
     (if s = [] then Some 0
      else if take 1 s \<noteq> ''.'' then None
      else if length s = 4 then map_option (\<lambda>v. v * 1000) (parse_digits 3 (drop 1 s))
      else if length s = 7 then parse_digits 6 (drop 1 s)
      else None)"

definition parse_hh_mm_ss_ff :: "string \<Rightarrow> (nat \<times> nat \<times> nat \<times> nat) option" where
  "parse_hh_mm_ss_ff tstr =
     do {
       hh \<leftarrow> parse_digits 2 tstr;
       if drop 2 tstr = [] then Some (hh, 0, 0, 0)
       else if take 1 (drop 2 tstr) \<noteq> '':'' then None
       else do {
         mm \<leftarrow> parse_digits 2 (drop 3 tstr);
         if drop 5 tstr = [] then Some (hh, mm, 0, 0)
         else if take 1 (drop 5 tstr) \<noteq> '':'' then None
         else do {
           ss \<leftarrow> parse_digits 2 (drop 6 tstr);
           ff \<leftarrow> parse_fraction (drop 8 tstr);
           Some (hh, mm, ss, ff)
         }
       }
     }"

definition is_sign :: "char \<Rightarrow> bool" where
  "is_sign c \<longleftrightarrow> c = CHR ''+'' \<or> c = CHR ''-''"

definition parse_offset :: "char \<Rightarrow> string \<Rightarrow> int option" where
  "parse_offset sign tzstr =
     (if length tzstr \<noteq> 5 \<and> length tzstr \<noteq> 8 \<and> length tzstr \<noteq> 15 then None
      else do {
        (hh, mm, ss, ff) \<leftarrow> parse_hh_mm_ss_ff tzstr;
        let td = (int hh * 3600 + int mm * 60 + int ss) * 1000000 + int ff;
        if td \<ge> day_us then None
        else Some (if sign = CHR ''-'' then - td else td)
      })"

definition parse_isoformat_time :: "string \<Rightarrow> ((nat \<times> nat \<times> nat \<times> nat) \<times> int option) option" where
  "parse_isoformat_time tstr =
     do {
       comps \<leftarrow> parse_hh_mm_ss_ff (takeWhile (\<lambda>c. \<not> is_sign c) tstr);
       case dropWhile (\<lambda>c. \<not> is_sign c) tstr of
         [] \<Rightarrow> Some (comps, None)
       | sign # tzstr \<Rightarrow> map_option (\<lambda>off. (comps, Some off)) (parse_offset sign tzstr)
     }"

definition fromisoformat :: "string \<Rightarrow> datetime option" where
  "fromisoformat date_string =
     (if length date_string < 10 then None
      else do {
        (year, month, day) \<leftarrow> parse_isoformat_date (take 10 date_string);
        ((hh, mm, ss, ff), tz) \<leftarrow>
          (if drop 11 date_string = [] then Some ((0, 0, 0, 0), None)
           else parse_isoformat_time (drop 11 date_string));
        datetime_new year month day hh mm ss ff tz
      })"

subsection \<open>Arithmetic and time zones\<close>

text \<open>
  \<^verbatim>\<open>d - timedelta\<close> keeps the \<^verbatim>\<open>tzinfo\<close> and moves the wall clock; leaving the years
  1 to 9999 raises \<^verbatim>\<open>OverflowError\<close> (\<open>None\<close>).
\<close>

definition sub_timedelta :: "datetime \<Rightarrow> timedelta \<Rightarrow> datetime option" where
  "sub_timedelta d td = (if in_range (wall d - td) then Some (d\<lparr>wall := wall d - td\<rparr>) else None)"

text \<open>
  \<^verbatim>\<open>a - b\<close> on two datetimes: the distance between the instants for two aware values,
  between the wall clocks for two naive ones, \<^verbatim>\<open>TypeError\<close> (\<open>None\<close>) for a mixed pair.
\<close>

definition dt_sub :: "datetime \<Rightarrow> datetime \<Rightarrow> timedelta option" where
  "dt_sub a b =
     (case (tzinfo a, tzinfo b) of
        (Some oa, Some ob) \<Rightarrow> Some ((wall a - oa) - (wall b - ob))
      | (None, None) \<Rightarrow> Some (wall a - wall b)
      | _ \<Rightarrow> None)"

text \<open>The UTC instant of an aware datetime (a naive one is read as UTC).\<close>

definition utc_instant :: "datetime \<Rightarrow> int" where
  "utc_instant d = wall d - (case tzinfo d of None \<Rightarrow> 0 | Some off \<Rightarrow> off)"

text \<open>
  \<^verbatim>\<open>CYPRUS_TZ = pytz.timezone('Europe/Nicosia')\<close>: the zone's rules come from the time zone
  database, so the zone is a parameter. \<open>utcoffset_local\<close> is the offset \<^verbatim>\<open>localize\<close>
  attaches to a naive wall-clock reading, \<open>utcoffset_utc\<close> the offset in force at a UTC
  instant. Both are in microseconds.
\<close>

record tzone =
  utcoffset_local :: "int \<Rightarrow> int"
  utcoffset_utc :: "int \<Rightarrow> int"

text \<open>\<^verbatim>\<open>datetime.now(tz)\<close>, for the clock reading \<open>clock\<close> (a UTC instant in microseconds).\<close>

definition datetime_now :: "tzone \<Rightarrow> int \<Rightarrow> datetime" where
  "datetime_now tz clock =
     \<lparr>wall = clock + utcoffset_utc tz clock, tzinfo = Some (utcoffset_utc tz clock)\<rparr>"

text \<open>\<^verbatim>\<open>tz.localize(d)\<close>: raises \<^verbatim>\<open>ValueError\<close> when \<open>d\<close> already has a \<^verbatim>\<open>tzinfo\<close>.\<close>

definition localize :: "tzone \<Rightarrow> datetime \<Rightarrow> datetime option" where
  "localize tz d =
     (case tzinfo d of
        Some off \<Rightarrow> None
      | None \<Rightarrow> Some (d\<lparr>tzinfo := Some (utcoffset_local tz (wall d))\<rparr>))"


text \<open>A zone with one constant offset, such as Europe/Nicosia between two transitions.\<close>

definition fixed_zone :: "int \<Rightarrow> tzone" where
  "fixed_zone off = \<lparr>utcoffset_local = (\<lambda>w. off), utcoffset_utc = (\<lambda>u. off)\<rparr>"

section \<open>The store and the dashboard state\<close>

text \<open>
  A row of \<^verbatim>\<open>sensor_readings\<close>. The store keeps the timestamp as an instant (here in
  microseconds, UTC), filters and orders by it, and returns it as text; the client only
  ever sees the text. A measurement that is missing or null is \<open>None\<close>.
\<close>

record reading =
  device_name :: string
  instant :: int
  timestamp :: string
  temperature :: "rat option"
  humidity :: "rat option"

record device =
  device_id :: nat
  is_active :: bool

text \<open>
  The hosted store, as far as the source reads it. A table that is \<open>None\<close> stands for a
  query on it that raises (network failure, API error).
\<close>

record store =
  devices :: "device list option"
  sensor_readings :: "reading list option"

record device_stats =
  active_sensors :: nat
  data_points_today :: nat

text \<open>The fields of \<^verbatim>\<open>SensorDashboard\<close> that the modelled methods read or write.\<close>

record dashboard =
  supabase :: "store option"
  stats :: device_stats
  authenticated :: bool
  filter_range :: string
  custom_start_date :: "string option"
  custom_end_date :: "string option"

text \<open>\<^verbatim>\<open>SensorDashboard.__init__\<close>, for the store \<^verbatim>\<open>setup_supabase\<close> found (or none).\<close>

definition init_dashboard :: "store option \<Rightarrow> dashboard" where
  "init_dashboard sb =
     \<lparr>supabase = sb,
      stats = \<lparr>active_sensors = 0, data_points_today = 0\<rparr>,
      authenticated = False,
      filter_range = ''24h'',
      custom_start_date = None,
      custom_end_date = None\<rparr>"

text \<open>
  Lines 219 to 222 (and 232 to 235, 476 to 479): the client's reading of a timestamp
  text, with its offset as labelled; a bare \<^verbatim>\<open>+00\<close> is widened to \<^verbatim>\<open>+00:00\<close> first. \<open>None\<close>
  when \<^verbatim>\<open>fromisoformat\<close> raises.
\<close>

definition parse_db_timestamp :: "string \<Rightarrow> datetime option" where
  "parse_db_timestamp timestamp_str =
     fromisoformat (if endswith timestamp_str ''+00''
                    then replace ''+00'' ''+00:00'' timestamp_str else timestamp_str)"

text \<open>
  The query builder, evaluated by the store on its own instants:
  \<^verbatim>\<open>.gte('timestamp', d.isoformat())\<close> keeps the rows at or after the instant of \<open>d\<close>,
  \<^verbatim>\<open>.lte\<close> those at or before it, \<^verbatim>\<open>.order('timestamp')\<close> sorts ascending.
\<close>

definition gte_timestamp :: "datetime \<Rightarrow> reading list \<Rightarrow> reading list" where
  "gte_timestamp d rows = filter (\<lambda>r. utc_instant d \<le> instant r) rows"

definition lte_timestamp :: "datetime \<Rightarrow> reading list \<Rightarrow> reading list" where
  "lte_timestamp d rows = filter (\<lambda>r. instant r \<le> utc_instant d) rows"

definition order_timestamp :: "reading list \<Rightarrow> reading list" where
  "order_timestamp rows = sort_key instant rows"

section \<open>\<^verbatim>\<open>fetch_device_stats\<close>\<close>

text \<open>\<^verbatim>\<open>now.replace(hour=0, minute=0, second=0, microsecond=0)\<close>\<close>

definition replace_midnight :: "datetime \<Rightarrow> datetime" where
  "replace_midnight d = d\<lparr>wall := wall d - wall d mod day_us\<rparr>"

text \<open>
  The method returns nothing and never raises: it writes \<^verbatim>\<open>self.device_stats\<close>. Each field
  is assigned as soon as its query has returned; an exception leaves the \<^verbatim>\<open>try\<close> block
  at that point and is logged.
\<close>

definition fetch_device_stats :: "tzone \<Rightarrow> int \<Rightarrow> dashboard \<Rightarrow> dashboard" where
  "fetch_device_stats tz clock self =
     (case supabase self of
        None \<Rightarrow> self\<lparr>stats := \<lparr>active_sensors = 12, data_points_today = 2847\<rparr>\<rparr>
      | Some sb \<Rightarrow>
          (case devices sb of
             None \<Rightarrow> self
           | Some ds \<Rightarrow>
               (let self1 = self\<lparr>stats := (stats self)\<lparr>active_sensors := length (filter is_active ds)\<rparr>\<rparr>;
                    now_cyprus = datetime_now tz clock;
                    today_start_cyprus = replace_midnight now_cyprus
                in case sensor_readings sb of
                     None \<Rightarrow> self1
                   | Some rows \<Rightarrow>
                       self1\<lparr>stats := (stats self1)
                               \<lparr>data_points_today := length (gte_timestamp today_start_cyprus rows)\<rparr>\<rparr>)))"

section \<open>\<^verbatim>\<open>fetch_historical_data\<close>\<close>

record point =
  pt_device_name :: string
  pt_timestamp :: datetime
  pt_value :: rat

record historical =
  temperature_history :: "point list"
  humidity_history :: "point list"

text \<open>What the method returns: the empty dict of the \<^verbatim>\<open>except\<close> branch, or the two series.\<close>

datatype hist_result = Empty_dict | Hist historical

text \<open>The synthetic branch, lines 158 to 167.\<close>

definition demo_hours :: "string \<Rightarrow> nat" where
  "demo_hours time_range =
     (if time_range = ''12h'' then 12
      else if time_range = ''24h'' then 24
      else if time_range = ''7d'' then 24 * 7
      else if time_range = ''30d'' then 24 * 30
      else 24)"

text \<open>
  \<^verbatim>\<open>[now_cyprus - timedelta(hours=i) for i in range(hours, 0, -1)]\<close>; \<open>None\<close> when a
  subtraction raises.
\<close>

definition demo_timestamps :: "datetime \<Rightarrow> nat \<Rightarrow> datetime list option" where
  "demo_timestamps now_cyprus hours =
     those (map (\<lambda>i. sub_timedelta now_cyprus (timedelta_hours (int i))) (rev [1..<Suc hours]))"

definition demo_history :: "datetime list \<Rightarrow> historical" where
  "demo_history timestamps =
     \<lparr>temperature_history =
        map (\<lambda>(i, ts). \<lparr>pt_device_name = ''Living Room'', pt_timestamp = ts,
                        pt_value = of_nat (22 + i mod 4)\<rparr>) (enumerate 0 timestamps),
      humidity_history =
        map (\<lambda>(i, ts). \<lparr>pt_device_name = ''Living Room'', pt_timestamp = ts,
                        pt_value = of_nat (45 + i mod 10)\<rparr>) (enumerate 0 timestamps)\<rparr>"

text \<open>\<^verbatim>\<open>start_date and end_date\<close>: both present and non-empty.\<close>

definition custom_dates :: "string option \<Rightarrow> string option \<Rightarrow> (string \<times> string) option" where
  "custom_dates start_date end_date =
     (case (start_date, end_date) of
        (Some sd, Some ed) \<Rightarrow> if sd \<noteq> [] \<and> ed \<noteq> [] then Some (sd, ed) else None
      | _ \<Rightarrow> None)"

text \<open>
  The store-backed branch, lines 184 to 205: the pair \<open>(since_cyprus, until_cyprus)\<close>;
  \<open>None\<close> when a step raises inside the \<^verbatim>\<open>try\<close>.
\<close>

definition resolve_window ::
  "tzone \<Rightarrow> int \<Rightarrow> string \<Rightarrow> string option \<Rightarrow> string option \<Rightarrow> (datetime \<times> datetime) option" where
  "resolve_window tz clock time_range start_date end_date =
     (let now_cyprus = datetime_now tz clock in
      if time_range = ''12h'' then
        do { since_cyprus \<leftarrow> sub_timedelta now_cyprus (timedelta_hours 12);
             Some (since_cyprus, now_cyprus) }
      else if time_range = ''24h'' then
        do { since_cyprus \<leftarrow> sub_timedelta now_cyprus (timedelta_hours 24);
             Some (since_cyprus, now_cyprus) }
      else if time_range = ''7d'' then
        do { since_cyprus \<leftarrow> sub_timedelta now_cyprus (timedelta_days 7);
             Some (since_cyprus, now_cyprus) }
      else if time_range = ''30d'' then
        do { since_cyprus \<leftarrow> sub_timedelta now_cyprus (timedelta_days 30);
             Some (since_cyprus, now_cyprus) }
      else if time_range = ''custom'' \<and> custom_dates start_date end_date \<noteq> None then
        do { (sd, ed) \<leftarrow> custom_dates start_date end_date;
             since_naive \<leftarrow> fromisoformat sd;
             since_cyprus \<leftarrow> localize tz since_naive;
             until_naive \<leftarrow> fromisoformat ed;
             until_cyprus \<leftarrow> localize tz until_naive;
             Some (since_cyprus, until_cyprus) }
      else
        do { since_cyprus \<leftarrow> sub_timedelta now_cyprus (timedelta_hours 24);
             Some (since_cyprus, now_cyprus) })"

text \<open>
  The loop over \<^verbatim>\<open>response.data\<close>, lines 216 to 241: a row goes to the temperature series
  when its temperature is not null and to the humidity series when its humidity is not
  null; \<open>None\<close> when a timestamp does not parse.
\<close>

definition row_point :: "reading \<Rightarrow> rat option \<Rightarrow> point list option" where
  "row_point r measurement =
     (case measurement of
        None \<Rightarrow> Some []
      | Some v \<Rightarrow>
          map_option (\<lambda>d. [\<lparr>pt_device_name = device_name r, pt_timestamp = d, pt_value = v\<rparr>])
            (parse_db_timestamp (timestamp r)))"

fun group_rows :: "reading list \<Rightarrow> (point list \<times> point list) option" where
  "group_rows [] = Some ([], [])"
| "group_rows (r # rs) =
     do { t \<leftarrow> row_point r (temperature r);
          h \<leftarrow> row_point r (humidity r);
          (temp_data, humidity_data) \<leftarrow> group_rows rs;
          Some (t @ temp_data, h @ humidity_data) }"

definition query_history :: "store \<Rightarrow> datetime \<Rightarrow> datetime \<Rightarrow> reading list option" where
  "query_history sb since_cyprus until_cyprus =
     map_option (\<lambda>rows. order_timestamp (lte_timestamp until_cyprus (gte_timestamp since_cyprus rows)))
       (sensor_readings sb)"

text \<open>
  The whole method. The outer \<open>None\<close> is an exception that reaches the caller, which only
  the synthetic branch can raise (it has no \<^verbatim>\<open>try\<close>).
\<close>

definition fetch_historical_data ::
  "tzone \<Rightarrow> int \<Rightarrow> dashboard \<Rightarrow> string \<Rightarrow> string option \<Rightarrow> string option \<Rightarrow> hist_result option" where
  "fetch_historical_data tz clock self time_range start_date end_date =
     (case supabase self of
        None \<Rightarrow>
          map_option (\<lambda>timestamps. Hist (demo_history timestamps))
            (demo_timestamps (datetime_now tz clock) (demo_hours time_range))
      | Some sb \<Rightarrow>
          Some (case do { (since_cyprus, until_cyprus) \<leftarrow>
                            resolve_window tz clock time_range start_date end_date;
                          rows \<leftarrow> query_history sb since_cyprus until_cyprus;
                          group_rows rows }
                of None \<Rightarrow> Empty_dict
                 | Some (temp_data, humidity_data) \<Rightarrow>
                     Hist \<lparr>temperature_history = temp_data, humidity_history = humidity_data\<rparr>))"

section \<open>\<^verbatim>\<open>format_timestamp\<close> and \<^verbatim>\<open>is_data_stale\<close>\<close>

text \<open>
  Lines 420 to 431: strip the zero-offset suffix, parse the rest as a naive datetime,
  attach the local zone. \<open>None\<close> when a step raises.
\<close>

definition corrected_timestamp :: "tzone \<Rightarrow> string \<Rightarrow> datetime option" where
  "corrected_timestamp tz timestamp_str =
     do { timestamp_naive \<leftarrow>
            fromisoformat
              (if endswith timestamp_str ''+00:00'' then replace ''+00:00'' [] timestamp_str
               else if endswith timestamp_str ''+00'' then replace ''+00'' [] timestamp_str
               else timestamp_str);
          localize tz timestamp_naive }"

text \<open>Lines 441 to 463, on the exact value of \<^verbatim>\<open>diff.total_seconds()\<close>.\<close>

definition relative_time :: "rat \<Rightarrow> string" where
  "relative_time secs =
     (if secs < 0 then
        (let t = \<bar>secs\<bar> in
         if t < 60 then ''Just now''
         else if t < 3600 then str_nat (nat \<lfloor>t / 60\<rfloor>) @ '' min from now''
         else str_nat (nat \<lfloor>t / 3600\<rfloor>) @ '' hr from now'')
      else if secs < 60 then ''Just now''
      else if secs < 3600 then str_nat (nat \<lfloor>secs / 60\<rfloor>) @ '' min ago''
      else if secs < 86400 then str_nat (nat \<lfloor>secs / 3600\<rfloor>) @ '' hr ago''
      else str_nat (nat \<lfloor>secs / 86400\<rfloor>) @ '' days ago'')"

definition format_timestamp :: "tzone \<Rightarrow> int \<Rightarrow> string option \<Rightarrow> string" where
  "format_timestamp tz clock timestamp_str =
     (case timestamp_str of
        None \<Rightarrow> ''Unknown''
      | Some s \<Rightarrow>
          if s = [] then ''Unknown''
          else (case do { timestamp_cyprus \<leftarrow> corrected_timestamp tz s;
                          dt_sub (datetime_now tz clock) timestamp_cyprus }
                of None \<Rightarrow> ''Unknown''
                 | Some diff \<Rightarrow> relative_time (total_seconds diff)))"



section \<open>Authentication\<close>

text \<open>
  \<^verbatim>\<open>DASHBOARD_USER\<close> and \<^verbatim>\<open>DASHBOARD_PASS\<close> are read from the environment at import time;
  the model takes them as a configuration record.
\<close>

record config =
  DASHBOARD_USER :: string
  DASHBOARD_PASS :: string

definition authenticate :: "config \<Rightarrow> string \<Rightarrow> string \<Rightarrow> bool" where
  "authenticate cfg username password \<longleftrightarrow>
     username = DASHBOARD_USER cfg \<and> password = DASHBOARD_PASS cfg"

text \<open>\<^verbatim>\<open>handle_login\<close> of the login page, and \<^verbatim>\<open>logout\<close>.\<close>

definition handle_login :: "config \<Rightarrow> dashboard \<Rightarrow> string \<Rightarrow> string \<Rightarrow> dashboard" where
  "handle_login cfg self username password =
     (if authenticate cfg username password then self\<lparr>authenticated := True\<rparr> else self)"

definition logout :: "dashboard \<Rightarrow> dashboard" where
  "logout self = self\<lparr>authenticated := False\<rparr>"

text \<open>The filter controls, lines 731 to 744.\<close>

definition apply_filter :: "dashboard \<Rightarrow> string \<Rightarrow> dashboard" where
  "apply_filter self time_range = self\<lparr>filter_range := time_range\<rparr>"

definition apply_custom_filter :: "dashboard \<Rightarrow> string option \<Rightarrow> string option \<Rightarrow> dashboard" where
  "apply_custom_filter self start_value end_value =
     (if custom_dates start_value end_value \<noteq> None
      then self\<lparr>filter_range := ''custom'', custom_start_date := start_value, custom_end_date := end_value\<rparr>
      else self)"

text \<open>
  Everything that writes the dashboard object: the user interface's handlers and the
  periodic refresh (at the clock reading it runs at).
\<close>

datatype event =
    Login string string
  | Logout
  | Apply_filter string
  | Apply_custom_filter "string option" "string option"
  | Refresh int

fun handle :: "config \<Rightarrow> tzone \<Rightarrow> dashboard \<Rightarrow> event \<Rightarrow> dashboard" where
  "handle cfg tz self (Login username password) = handle_login cfg self username password"
| "handle cfg tz self Logout = logout self"
| "handle cfg tz self (Apply_filter time_range) = apply_filter self time_range"
| "handle cfg tz self (Apply_custom_filter start_value end_value) =
     apply_custom_filter self start_value end_value"
| "handle cfg tz self (Refresh clock) = fetch_device_stats tz clock self"

definition run :: "config \<Rightarrow> tzone \<Rightarrow> dashboard \<Rightarrow> event list \<Rightarrow> dashboard" where
  "run cfg tz self events = foldl (handle cfg tz) self events"

section \<open>The ordering of the relative-time buckets\<close>

text \<open>
  The spec orders the buckets \<^verbatim>\<open>Just now\<close> < min < hr < days. The rank of an output of
  \<^verbatim>\<open>format_timestamp\<close> is read off its unit; \<^verbatim>\<open>Just now\<close> (and \<^verbatim>\<open>Unknown\<close>, which does
  not depend on the clock) has rank 0.
\<close>

definition bucket :: "string \<Rightarrow> nat" where
  "bucket out =
     (if endswith out '' min ago'' \<or> endswith out '' min from now'' then 1
      else if endswith out '' hr ago'' \<or> endswith out '' hr from now'' then 2
      else if endswith out '' days ago'' then 3
      else 0)"

section \<open>\<^verbatim>\<open>strftime\<close>\<close>






section \<open>\<^verbatim>\<open>export_to_csv\<close>\<close>





















section \<open>Properties of the authentication\<close>

lemma fetch_device_stats_authenticated:
  "authenticated (fetch_device_stats tz clock self) = authenticated self"
  by (simp add: fetch_device_stats_def Let_def split: option.splits)

lemma handle_authenticated:
  "authenticated (handle cfg tz self e) \<Longrightarrow>
     authenticated self \<or> (\<exists>u p. e = Login u p \<and> authenticate cfg u p)"
  by (cases e)
     (auto simp: handle_login_def logout_def apply_filter_def apply_custom_filter_def
                 fetch_device_stats_authenticated split: if_splits)

lemma run_authenticated:
  "authenticated (run cfg tz self es) \<Longrightarrow>
     authenticated self \<or> (\<exists>u p. Login u p \<in> set es \<and> authenticate cfg u p)"
proof (induction es arbitrary: self)
  case Nil
  then show ?case by (simp add: run_def)
next
  case (Cons e es)
  from Cons.prems have "authenticated (run cfg tz (handle cfg tz self e) es)"
    by (simp add: run_def)
  from Cons.IH [OF this] show ?case
  proof
    assume "authenticated (handle cfg tz self e)"
    from handle_authenticated [OF this] show ?thesis by auto
  next
    assume "\<exists>u p. Login u p \<in> set es \<and> authenticate cfg u p"
    then show ?thesis by auto
  qed
qed

text \<open>
  Claim C9. \<^verbatim>\<open>authenticate\<close> returns true exactly for the configured pair of
  credentials. A handler that turns the \<^verbatim>\<open>authenticated\<close> flag from false to true is a
  login whose \<^verbatim>\<open>authenticate\<close> call returned true, and a dashboard that is authenticated
  after any sequence of handlers, starting from the freshly built object, has seen such
  a login.
\<close>

theorem C9_authenticate:
  "(authenticate cfg username password \<longleftrightarrow>
      username = DASHBOARD_USER cfg \<and> password = DASHBOARD_PASS cfg)
   \<and> (\<not> authenticated self \<and> authenticated (handle cfg tz self e) \<longrightarrow>
        (\<exists>u p. e = Login u p \<and> authenticate cfg u p))
   \<and> (authenticated (run cfg tz (init_dashboard sb) es) \<longrightarrow>
        (\<exists>u p. Login u p \<in> set es \<and> u = DASHBOARD_USER cfg \<and> p = DASHBOARD_PASS cfg))"
proof (intro conjI impI)
  show "authenticate cfg username password \<longleftrightarrow>
      username = DASHBOARD_USER cfg \<and> password = DASHBOARD_PASS cfg"
    by (simp add: authenticate_def)
next
  assume "\<not> authenticated self \<and> authenticated (handle cfg tz self e)"
  then show "\<exists>u p. e = Login u p \<and> authenticate cfg u p"
    using handle_authenticated [of cfg tz self e] by blast
next
  assume "authenticated (run cfg tz (init_dashboard sb) es)"
  from run_authenticated [OF this]
  show "\<exists>u p. Login u p \<in> set es \<and> u = DASHBOARD_USER cfg \<and> p = DASHBOARD_PASS cfg"
    by (auto simp: init_dashboard_def authenticate_def)
qed

theorem C9_authenticate_witness:
  "authenticate \<lparr>DASHBOARD_USER = ''admin'', DASHBOARD_PASS = ''password''\<rparr> ''admin'' ''password''
   \<and> \<not> authenticate \<lparr>DASHBOARD_USER = ''admin'', DASHBOARD_PASS = ''password''\<rparr> ''admin'' ''guess''
   \<and> \<not> authenticated (init_dashboard None)
   \<and> authenticated (handle \<lparr>DASHBOARD_USER = ''admin'', DASHBOARD_PASS = ''password''\<rparr>
         (fixed_zone 7200000000) (init_dashboard None) (Login ''admin'' ''password''))
   \<and> authenticated (run \<lparr>DASHBOARD_USER = ''admin'', DASHBOARD_PASS = ''password''\<rparr>
         (fixed_zone 7200000000) (init_dashboard None)
         [Login ''admin'' ''guess'', Login ''admin'' ''password'', Apply_filter ''7d''])
   \<and> (\<exists>u p. Login u p \<in> set [Login ''admin'' ''guess'', Login ''admin'' ''password'',
                                Apply_filter ''7d'']
          \<and> u = ''admin'' \<and> p = ''password'')"
  using C9_authenticate [of "\<lparr>DASHBOARD_USER = ''admin'', DASHBOARD_PASS = ''password''\<rparr>"
      "''admin''" "''password''" "init_dashboard None" "fixed_zone 7200000000"
      "Login ''admin'' ''password''" None
      "[Login ''admin'' ''guess'', Login ''admin'' ''password'', Apply_filter ''7d'']"]
  by (simp add: authenticate_def init_dashboard_def handle_login_def run_def apply_filter_def)

section \<open>Evaluating the library on concrete inputs\<close>

lemmas parse_eval =
  fromisoformat_def parse_isoformat_date_def parse_digits_def digit_val_def
  parse_isoformat_time_def is_sign_def parse_hh_mm_ss_ff_def parse_fraction_def
  parse_offset_def day_us_def datetime_new_def days_in_month_def ymd2ord_def
  days_before_year_def days_before_month_def is_leap_def

lemma str_nat_numeral:
  "str_nat (numeral k) =
     (if (numeral k :: nat) < 10 then [digit_char (numeral k)]
      else str_nat (numeral k div 10) @ [digit_char (numeral k mod 10)])"
  by (rule str_nat.simps)

lemma str_nat_small: "str_nat 0 = ''0''" "str_nat (Suc 0) = ''1''"
  by (simp_all add: str_nat.simps [of 0] str_nat.simps [of "Suc 0"] digit_char_def)

lemmas string_eval =
  endswith_def suffix_to_prefix str_nat_numeral str_nat_small digit_char_def

section \<open>Properties of the time-range resolution\<close>

lemma utc_instant_now: "utc_instant (datetime_now tz clock) = clock"
  by (simp add: utc_instant_def datetime_now_def)






lemma custom_dates_missing:
  "start_date = None \<or> end_date = None \<Longrightarrow> custom_dates start_date end_date = None"
  by (auto simp: custom_dates_def split: option.splits)

text \<open>
  Claim C10. With the token \<^verbatim>\<open>custom\<close> and a missing start or end date, the window, the
  number of synthetic hours and the whole result of \<^verbatim>\<open>fetch_historical_data\<close> are those
  of the token \<^verbatim>\<open>24h\<close>, with or without a store.
\<close>

theorem C10_custom_missing_dates:
  assumes "start_date = None \<or> end_date = None"
  shows "resolve_window tz clock ''custom'' start_date end_date =
           resolve_window tz clock ''24h'' start_date' end_date'
       \<and> demo_hours ''custom'' = demo_hours ''24h''
       \<and> fetch_historical_data tz clock self ''custom'' start_date end_date =
           fetch_historical_data tz clock self ''24h'' start_date' end_date'"
proof -
  have w: "resolve_window tz clock ''custom'' start_date end_date =
           resolve_window tz clock ''24h'' start_date' end_date'"
    using custom_dates_missing [OF assms] by (simp add: resolve_window_def)
  have h: "demo_hours ''custom'' = demo_hours ''24h''"
    by (simp add: demo_hours_def)
  show ?thesis
    by (simp only: fetch_historical_data_def w h)
qed

theorem C10_custom_missing_dates_witness:
  "fetch_historical_data (fixed_zone 7200000000) 63840909600000000 (init_dashboard None)
      ''custom'' None (Some ''2024-01-16'') =
   fetch_historical_data (fixed_zone 7200000000) 63840909600000000 (init_dashboard None)
      ''24h'' None None
   \<and> resolve_window (fixed_zone 7200000000) 63840909600000000 ''custom'' None (Some ''2024-01-16'') =
     Some (\<lparr>wall = 63840830400000000, tzinfo = Some 7200000000\<rparr>,
           \<lparr>wall = 63840916800000000, tzinfo = Some 7200000000\<rparr>)"
  using C10_custom_missing_dates [of None "Some ''2024-01-16''" "fixed_zone 7200000000"
      63840909600000000 None None "init_dashboard None"]
  by (simp add: resolve_window_def fixed_zone_def datetime_now_def Let_def sub_timedelta_def
        in_range_def max_wall_def timedelta_hours_def)

section \<open>Properties of the relative-time formatting\<close>

lemma total_seconds_less: "total_seconds d < of_int k \<longleftrightarrow> d < k * 1000000"
proof -
  have "total_seconds d < of_int k \<longleftrightarrow> (of_int d :: rat) < of_int (k * 1000000)"
    by (simp add: total_seconds_def field_simps)
  then show ?thesis by (simp only: of_int_less_iff)
qed

lemma total_seconds_floor: "0 < k \<Longrightarrow> \<lfloor>total_seconds d / of_int k\<rfloor> = d div (k * 1000000)"
proof -
  assume "0 < k"
  have "total_seconds d / of_int k = (of_int d :: rat) / of_int (k * 1000000)"
    by (simp add: total_seconds_def field_simps)
  then show ?thesis by (simp only: floor_divide_of_int_eq)
qed

lemma total_seconds_abs: "\<bar>total_seconds d\<bar> = total_seconds \<bar>d\<bar>"
  by (simp add: total_seconds_def)

lemma relative_time_us:
  "relative_time (total_seconds d) =
     (if d < 0 then
        (if - d < 60000000 then ''Just now''
         else if - d < 3600000000 then str_nat (nat ((- d) div 60000000)) @ '' min from now''
         else str_nat (nat ((- d) div 3600000000)) @ '' hr from now'')
      else if d < 60000000 then ''Just now''
      else if d < 3600000000 then str_nat (nat (d div 60000000)) @ '' min ago''
      else if d < 86400000000 then str_nat (nat (d div 3600000000)) @ '' hr ago''
      else str_nat (nat (d div 86400000000)) @ '' days ago'')"
proof -
  have l: "total_seconds x < 0 \<longleftrightarrow> x < 0" "total_seconds x < 60 \<longleftrightarrow> x < 60000000"
    "total_seconds x < 3600 \<longleftrightarrow> x < 3600000000" "total_seconds x < 86400 \<longleftrightarrow> x < 86400000000" for x
    using total_seconds_less [of x 0] total_seconds_less [of x 60]
      total_seconds_less [of x 3600] total_seconds_less [of x 86400] by simp_all
  have f: "\<lfloor>total_seconds x / 60\<rfloor> = x div 60000000"
    "\<lfloor>total_seconds x / 3600\<rfloor> = x div 3600000000"
    "\<lfloor>total_seconds x / 86400\<rfloor> = x div 86400000000" for x
    using total_seconds_floor [of 60 x] total_seconds_floor [of 3600 x]
      total_seconds_floor [of 86400 x] by simp_all
  show ?thesis
  proof (cases "d < 0")
    case True
    then have "\<bar>d\<bar> = - d" by simp
    with True show ?thesis
      by (simp add: relative_time_def Let_def total_seconds_abs l f)
  next
    case False
    then show ?thesis
      by (simp add: relative_time_def l f)
  qed
qed

lemma corrected_timestamp_aware:
  "corrected_timestamp tz s = Some ts \<Longrightarrow> \<exists>off. tzinfo ts = Some off"
  by (auto simp: corrected_timestamp_def localize_def split: bind_splits option.splits)

lemma fromisoformat_Nil: "fromisoformat [] = None"
  by (simp add: fromisoformat_def)

lemma corrected_timestamp_Nil: "corrected_timestamp tz [] = None"
  by (simp add: corrected_timestamp_def endswith_def fromisoformat_Nil)

lemma dt_sub_now:
  "tzinfo ts = Some off \<Longrightarrow> dt_sub (datetime_now tz clock) ts = Some (clock - utc_instant ts)"
  by (simp add: dt_sub_def datetime_now_def utc_instant_def)

lemma format_timestamp_corrected:
  assumes "corrected_timestamp tz s = Some ts"
  shows "format_timestamp tz clock (Some s) = relative_time (total_seconds (clock - utc_instant ts))"
proof -
  from assms have "s \<noteq> []" using corrected_timestamp_Nil by auto
  moreover from corrected_timestamp_aware [OF assms] obtain off where "tzinfo ts = Some off" ..
  ultimately show ?thesis
    using assms by (simp add: format_timestamp_def dt_sub_now)
qed

lemma format_timestamp_unknown:
  "corrected_timestamp tz s = None \<Longrightarrow> format_timestamp tz clock (Some s) = ''Unknown''"
  by (simp add: format_timestamp_def)

text \<open>
  Claim C5, as the code has it. With \<open>d\<close> the time from the corrected instant to the
  local now, in microseconds: under 60 seconds gives \<^verbatim>\<open>Just now\<close>, under an hour
  \<^verbatim>\<open>N min ago\<close>, under 24 hours \<^verbatim>\<open>N hr ago\<close>, 24 hours or more \<^verbatim>\<open>N days ago\<close>. For a
  future instant: under 60 seconds gives \<^verbatim>\<open>Just now\<close>, under an hour \<^verbatim>\<open>N min from now\<close>,
  and an hour or more \<^verbatim>\<open>N hr from now\<close>, however many days ahead it is. \<open>N\<close> is the
  whole number of minutes, hours or days.
\<close>

theorem C5_format_timestamp_buckets:
  assumes "corrected_timestamp tz s = Some ts"
  shows "let d = clock - utc_instant ts; out = format_timestamp tz clock (Some s) in
           (0 \<le> d \<and> d < 60000000 \<longrightarrow> out = ''Just now'')
         \<and> (60000000 \<le> d \<and> d < 3600000000 \<longrightarrow> out = str_nat (nat (d div 60000000)) @ '' min ago'')
         \<and> (3600000000 \<le> d \<and> d < 86400000000 \<longrightarrow>
              out = str_nat (nat (d div 3600000000)) @ '' hr ago'')
         \<and> (86400000000 \<le> d \<longrightarrow> out = str_nat (nat (d div 86400000000)) @ '' days ago'')
         \<and> (- 60000000 < d \<and> d < 0 \<longrightarrow> out = ''Just now'')
         \<and> (- 3600000000 < d \<and> d \<le> - 60000000 \<longrightarrow>
              out = str_nat (nat ((- d) div 60000000)) @ '' min from now'')
         \<and> (d \<le> - 3600000000 \<longrightarrow> out = str_nat (nat ((- d) div 3600000000)) @ '' hr from now'')"
  unfolding Let_def format_timestamp_corrected [OF assms] relative_time_us
  by simp

text \<open>
  A timestamp exactly two days ahead of the local now is rendered in hours: the future
  branch has no days bucket.
\<close>

theorem C5_future_days_counterexample:
  "corrected_timestamp (fixed_zone 7200000000) ''2024-01-17T12:00:00+00:00'' =
     Some \<lparr>wall = 63841089600000000, tzinfo = Some 7200000000\<rparr>
   \<and> 63840909600000000 - utc_instant \<lparr>wall = 63841089600000000, tzinfo = Some 7200000000\<rparr>
       = - (2 * 86400000000)
   \<and> format_timestamp (fixed_zone 7200000000) 63840909600000000
       (Some ''2024-01-17T12:00:00+00:00'') = ''48 hr from now''"
proof -
  have c: "corrected_timestamp (fixed_zone 7200000000) ''2024-01-17T12:00:00+00:00'' =
     Some \<lparr>wall = 63841089600000000, tzinfo = Some 7200000000\<rparr>"
    by (simp add: corrected_timestamp_def string_eval parse_eval localize_def fixed_zone_def)
  show ?thesis
    by (simp add: c format_timestamp_corrected [OF c] relative_time_us utc_instant_def string_eval)
qed

theorem C5_format_timestamp_buckets_witness:
  "corrected_timestamp (fixed_zone 7200000000) ''2024-01-15T09:30:00+00:00'' =
     Some \<lparr>wall = 63840907800000000, tzinfo = Some 7200000000\<rparr>
   \<and> format_timestamp (fixed_zone 7200000000) 63840909600000000
       (Some ''2024-01-15T09:30:00+00:00'') = ''2 hr ago''"
proof -
  have c: "corrected_timestamp (fixed_zone 7200000000) ''2024-01-15T09:30:00+00:00'' =
     Some \<lparr>wall = 63840907800000000, tzinfo = Some 7200000000\<rparr>"
    by (simp add: corrected_timestamp_def string_eval parse_eval localize_def fixed_zone_def)
  show ?thesis
    using C5_format_timestamp_buckets [OF c, of 63840909600000000]
    by (simp add: c Let_def utc_instant_def string_eval)
qed

section \<open>Monotonicity of the buckets\<close>

lemma not_suffix_append:
  "\<not> suffix a b \<Longrightarrow> \<not> suffix b a \<Longrightarrow> \<not> suffix a (xs @ b)"
  using suffix_same_cases [of a "xs @ b" b] by (auto simp: suffix_appendI)

lemma bucket_units:
  "bucket ''Just now'' = 0"
  "bucket ''Unknown'' = 0"
  "bucket (xs @ '' min ago'') = 1"
  "bucket (xs @ '' min from now'') = 1"
  "bucket (xs @ '' hr ago'') = 2"
  "bucket (xs @ '' hr from now'') = 2"
  "bucket (xs @ '' days ago'') = 3"
proof -
  show "bucket ''Just now'' = 0" "bucket ''Unknown'' = 0"
    by (simp_all add: bucket_def endswith_def suffix_to_prefix)
  show "bucket (xs @ '' min ago'') = 1" "bucket (xs @ '' min from now'') = 1"
    by (simp_all add: bucket_def endswith_def suffix_appendI)
  have n: "\<not> suffix '' min ago'' (xs @ '' hr ago'')"
    "\<not> suffix '' min from now'' (xs @ '' hr ago'')"
    "\<not> suffix '' min ago'' (xs @ '' hr from now'')"
    "\<not> suffix '' min from now'' (xs @ '' hr from now'')"
    "\<not> suffix '' min ago'' (xs @ '' days ago'')"
    "\<not> suffix '' min from now'' (xs @ '' days ago'')"
    "\<not> suffix '' hr ago'' (xs @ '' days ago'')"
    "\<not> suffix '' hr from now'' (xs @ '' days ago'')"
    by (rule not_suffix_append; simp add: suffix_to_prefix)+
  show "bucket (xs @ '' hr ago'') = 2" "bucket (xs @ '' hr from now'') = 2"
    "bucket (xs @ '' days ago'') = 3"
    by (simp_all add: bucket_def endswith_def n suffix_appendI)
qed

lemma bucket_relative_time:
  "bucket (relative_time (total_seconds d)) =
     (if d < 0 then (if - d < 60000000 then 0 else if - d < 3600000000 then 1 else 2)
      else if d < 60000000 then 0
      else if d < 3600000000 then 1
      else if d < 86400000000 then 2
      else 3)"
  by (simp add: relative_time_us bucket_units)

lemma bucket_relative_time_mono:
  assumes "- 60000000 < d1" and "d1 \<le> d2"
  shows "bucket (relative_time (total_seconds d1)) \<le> bucket (relative_time (total_seconds d2))"
  using assms unfolding bucket_relative_time by (simp split: if_splits)

text \<open>
  Claim C6, as the code has it. For a fixed timestamp string and two clock readings,
  the second not earlier than the first, the bucket at the second reading is never
  smaller than the bucket at the first, provided the corrected instant is less than 60
  seconds ahead of the first reading (past timestamps, and future ones still rendered
  \<^verbatim>\<open>Just now\<close>).
\<close>

theorem C6_bucket_monotonic:
  assumes "clock1 \<le> clock2"
    and "\<forall>s ts. timestamp_str = Some s \<and> corrected_timestamp tz s = Some ts
            \<longrightarrow> utc_instant ts - clock1 < 60000000"
  shows "bucket (format_timestamp tz clock1 timestamp_str)
           \<le> bucket (format_timestamp tz clock2 timestamp_str)"
proof (cases timestamp_str)
  case None
  then show ?thesis by (simp add: format_timestamp_def)
next
  case (Some s)
  show ?thesis
  proof (cases "corrected_timestamp tz s")
    case None
    then show ?thesis
      using Some by (simp add: format_timestamp_unknown)
  next
    case (Some ts)
    with \<open>timestamp_str = Some s\<close> assms(2) have "utc_instant ts - clock1 < 60000000"
      by blast
    then have "- 60000000 < clock1 - utc_instant ts" by simp
    moreover from assms(1) have "clock1 - utc_instant ts \<le> clock2 - utc_instant ts" by simp
    ultimately show ?thesis
      using \<open>timestamp_str = Some s\<close>
      by (simp add: format_timestamp_corrected [OF Some] bucket_relative_time_mono)
  qed
qed

theorem C6_bucket_monotonic_witness:
  "format_timestamp (fixed_zone 7200000000) 63840909600000000
       (Some ''2024-01-15T09:30:00+00:00'') = ''2 hr ago''
   \<and> format_timestamp (fixed_zone 7200000000) 63840996000000000
       (Some ''2024-01-15T09:30:00+00:00'') = ''1 days ago''
   \<and> bucket (format_timestamp (fixed_zone 7200000000) 63840909600000000
               (Some ''2024-01-15T09:30:00+00:00''))
       \<le> bucket (format_timestamp (fixed_zone 7200000000) 63840996000000000
               (Some ''2024-01-15T09:30:00+00:00''))"
proof -
  have c: "corrected_timestamp (fixed_zone 7200000000) ''2024-01-15T09:30:00+00:00'' =
     Some \<lparr>wall = 63840907800000000, tzinfo = Some 7200000000\<rparr>"
    by (simp add: corrected_timestamp_def string_eval parse_eval localize_def fixed_zone_def)
  have "\<forall>s ts. Some ''2024-01-15T09:30:00+00:00'' = Some s
            \<and> corrected_timestamp (fixed_zone 7200000000) s = Some ts
            \<longrightarrow> utc_instant ts - 63840909600000000 < 60000000"
    by (auto simp: c utc_instant_def)
  from C6_bucket_monotonic [of 63840909600000000 63840996000000000
      "Some ''2024-01-15T09:30:00+00:00''" "fixed_zone 7200000000", OF _ this]
  show ?thesis
    by (simp add: format_timestamp_corrected [OF c] relative_time_us utc_instant_def string_eval)
qed

text \<open>
  A timestamp two hours ahead of the first clock reading: ninety minutes later the
  output has moved from the hours bucket down to the minutes bucket.
\<close>

theorem C6_future_counterexample:
  "(63840909600000000 :: int) \<le> 63840915000000000
   \<and> format_timestamp (fixed_zone 7200000000) 63840909600000000
       (Some ''2024-01-15T14:00:00+00:00'') = ''2 hr from now''
   \<and> format_timestamp (fixed_zone 7200000000) 63840915000000000
       (Some ''2024-01-15T14:00:00+00:00'') = ''30 min from now''
   \<and> bucket ''30 min from now'' < bucket ''2 hr from now''"
proof -
  have c: "corrected_timestamp (fixed_zone 7200000000) ''2024-01-15T14:00:00+00:00'' =
     Some \<lparr>wall = 63840924000000000, tzinfo = Some 7200000000\<rparr>"
    by (simp add: corrected_timestamp_def string_eval parse_eval localize_def fixed_zone_def)
  show ?thesis
    by (simp add: format_timestamp_corrected [OF c] relative_time_us utc_instant_def string_eval
        bucket_def)
qed

section \<open>Properties of the staleness check\<close>







section \<open>Properties of the device statistics\<close>

lemma fetch_device_stats_only_stats:
  "fetch_device_stats tz clock self = self\<lparr>stats := stats (fetch_device_stats tz clock self)\<rparr>"
  by (simp add: fetch_device_stats_def Let_def split: option.splits)

text \<open>
  What the method does in each case. It always returns normally and writes nothing but
  the statistics. Without a store both fields are set together. With a store: when the
  first query raises nothing is written; when the first query returns and the second
  raises only \<^verbatim>\<open>active_sensors\<close> is written; when both return both fields are written.
\<close>

lemma fetch_device_stats_cases:
  "(supabase self = None \<longrightarrow>
      stats (fetch_device_stats tz clock self) = \<lparr>active_sensors = 12, data_points_today = 2847\<rparr>)
   \<and> (supabase self = Some sb \<and> devices sb = None \<longrightarrow> fetch_device_stats tz clock self = self)
   \<and> (supabase self = Some sb \<and> devices sb = Some ds \<and> sensor_readings sb = None \<longrightarrow>
        stats (fetch_device_stats tz clock self) =
          \<lparr>active_sensors = length (filter is_active ds),
           data_points_today = data_points_today (stats self)\<rparr>)
   \<and> (supabase self = Some sb \<and> devices sb = Some ds \<and> sensor_readings sb = Some rows \<longrightarrow>
        stats (fetch_device_stats tz clock self) =
          \<lparr>active_sensors = length (filter is_active ds),
           data_points_today =
             length (gte_timestamp (replace_midnight (datetime_now tz clock)) rows)\<rparr>)
   \<and> fetch_device_stats tz clock self = self\<lparr>stats := stats (fetch_device_stats tz clock self)\<rparr>"
proof (intro conjI impI)
  show "fetch_device_stats tz clock self = self\<lparr>stats := stats (fetch_device_stats tz clock self)\<rparr>"
    by (rule fetch_device_stats_only_stats)
qed (auto simp: fetch_device_stats_def Let_def)

text \<open>
  Claim C8 says that the device statistics are never partially updated: after a call
  either both fields are fresh or, on a store error, neither is. The code breaks this.
  The dashboard holds 5 active sensors and 100 data points from the last refresh; the
  devices query returns two active devices and the readings query raises. After the
  call the dashboard holds 2 active sensors, which is fresh, beside 100 data points,
  which is not.
\<close>

theorem C8_partial_update:
  "stats (fetch_device_stats (fixed_zone 7200000000) 63840909600000000
     ((init_dashboard (Some \<lparr>devices = Some [\<lparr>device_id = 1, is_active = True\<rparr>,
                                                 \<lparr>device_id = 2, is_active = True\<rparr>,
                                                 \<lparr>device_id = 3, is_active = False\<rparr>],
                              sensor_readings = None\<rparr>))
        \<lparr>stats := \<lparr>active_sensors = 5, data_points_today = 100\<rparr>\<rparr>))
   = \<lparr>active_sensors = 2, data_points_today = 100\<rparr>"
  by (simp add: fetch_device_stats_def init_dashboard_def Let_def)

section \<open>Properties of the historical fetch\<close>

lemma row_point_None:
  "row_point r m = None \<longleftrightarrow> m \<noteq> None \<and> parse_db_timestamp (timestamp r) = None"
  by (cases m; cases "parse_db_timestamp (timestamp r)") (simp_all add: row_point_def)

lemma group_rows_fail:
  assumes "r \<in> set rows"
    and "row_point r (temperature r) = None \<or> row_point r (humidity r) = None"
  shows "group_rows rows = None"
  using assms
proof (induction rows)
  case Nil
  then show ?case by simp
next
  case (Cons x rows)
  show ?case
  proof (cases "x = r")
    case True
    with Cons.prems(2) show ?thesis by (auto split: bind_splits)
  next
    case False
    with Cons have "group_rows rows = None" by simp
    then show ?thesis by (simp split: bind_splits)
  qed
qed

lemma group_rows_ok:
  assumes "\<forall>r\<in>set rows. row_point r (temperature r) \<noteq> None \<and> row_point r (humidity r) \<noteq> None"
  shows "group_rows rows =
           Some (concat (map (\<lambda>r. case row_point r (temperature r) of
                                     None \<Rightarrow> [] | Some ps \<Rightarrow> ps) rows),
                 concat (map (\<lambda>r. case row_point r (humidity r) of
                                     None \<Rightarrow> [] | Some ps \<Rightarrow> ps) rows))"
  using assms
proof (induction rows)
  case Nil
  then show ?case by simp
next
  case (Cons r rows)
  then obtain t h where "row_point r (temperature r) = Some t" "row_point r (humidity r) = Some h"
    by auto
  moreover from Cons have "group_rows rows =
           Some (concat (map (\<lambda>r. case row_point r (temperature r) of
                                     None \<Rightarrow> [] | Some ps \<Rightarrow> ps) rows),
                 concat (map (\<lambda>r. case row_point r (humidity r) of
                                     None \<Rightarrow> [] | Some ps \<Rightarrow> ps) rows))"
    by simp
  ultimately show ?case by simp
qed

lemma set_row_point:
  "set (case row_point r m of None \<Rightarrow> [] | Some ps \<Rightarrow> ps) =
     {\<lparr>pt_device_name = device_name r, pt_timestamp = d, pt_value = v\<rparr> | d v.
        m = Some v \<and> parse_db_timestamp (timestamp r) = Some d}"
  by (cases m; cases "parse_db_timestamp (timestamp r)") (auto simp: row_point_def)

lemma set_row_points:
  "set (concat (map (\<lambda>r. case row_point r (m r) of None \<Rightarrow> [] | Some ps \<Rightarrow> ps) rows)) =
     {\<lparr>pt_device_name = device_name r, pt_timestamp = d, pt_value = v\<rparr> | r d v.
        r \<in> set rows \<and> m r = Some v \<and> parse_db_timestamp (timestamp r) = Some d}"
  unfolding set_concat set_map image_image set_row_point by blast

lemma length_row_points:
  assumes "\<forall>r\<in>set rows. row_point r (m r) \<noteq> None"
  shows "length (concat (map (\<lambda>r. case row_point r (m r) of None \<Rightarrow> [] | Some ps \<Rightarrow> ps) rows)) =
           length (filter (\<lambda>r. m r \<noteq> None) rows)"
  using assms
proof (induction rows)
  case Nil
  then show ?case by simp
next
  case (Cons r rows)
  then have IH: "length (concat (map (\<lambda>r. case row_point r (m r) of None \<Rightarrow> [] | Some ps \<Rightarrow> ps) rows)) =
           length (filter (\<lambda>r. m r \<noteq> None) rows)" by simp
  from Cons.prems have "row_point r (m r) \<noteq> None" by simp
  then have "length (case row_point r (m r) of None \<Rightarrow> [] | Some ps \<Rightarrow> ps) =
             (if m r \<noteq> None then 1 else 0)"
    by (cases "m r"; cases "parse_db_timestamp (timestamp r)") (simp_all add: row_point_def)
  with IH show ?case by simp
qed

lemma sorted_constant: "\<forall>x\<in>set xs. x = c \<Longrightarrow> sorted xs"
  by (induction xs) auto

lemma sorted_row_points:
  assumes "sorted (map k rows)" and "\<forall>r\<in>set rows. \<forall>p\<in>set (g r). h p = k r"
  shows "sorted (map h (concat (map g rows)))"
  using assms
proof (induction rows)
  case Nil
  then show ?case by simp
next
  case (Cons r rows)
  then have IH: "sorted (map h (concat (map g rows)))" by simp
  have own: "sorted (map h (g r))"
    by (rule sorted_constant [of _ "k r"]) (use Cons.prems(2) in auto)
  have "x \<le> y" if "x \<in> set (map h (g r))" "y \<in> set (map h (concat (map g rows)))" for x y
  proof -
    from that(1) Cons.prems(2) have x: "x = k r" by auto
    from that(2) obtain r' where "r' \<in> set rows" "y = k r'"
      using Cons.prems(2) by auto
    with Cons.prems(1) x show ?thesis by auto
  qed
  with IH own show ?case by (simp add: sorted_append)
qed

lemma query_history_eq:
  assumes "sensor_readings sb = Some table"
  shows "query_history sb since until =
           Some (sort_key instant
                  (filter (\<lambda>r. utc_instant since \<le> instant r \<and> instant r \<le> utc_instant until) table))"
  using assms
  by (simp add: query_history_def order_timestamp_def lte_timestamp_def gte_timestamp_def conj_commute)


text \<open>
  Claim C2, as the code has it. With a store whose readings query succeeds and a
  resolved window \<open>(since, until)\<close>, the store selects the rows whose timestamp lies in
  the closed interval from \<open>since\<close> to \<open>until\<close>, both ends included, in ascending order
  of timestamp. If the timestamp text of a selected row that carries a measurement does
  not parse, \<^verbatim>\<open>fetch_historical_data\<close> returns the empty dict. Otherwise it returns the
  two series: the temperature series holds one point for each selected row with a
  non-null temperature, the humidity series one point for each selected row with a
  non-null humidity, both in the order of the selected rows; where the text of every
  row denotes the instant the store holds for it, both series are in ascending order
  of their parsed timestamps.
\<close>

theorem C2_fetch_historical_data:
  assumes "supabase self = Some sb"
    and "sensor_readings sb = Some table"
    and "resolve_window tz clock time_range start_date end_date = Some (since, until)"
  shows "let in_window = (\<lambda>r. utc_instant since \<le> instant r \<and> instant r \<le> utc_instant until);
             result = fetch_historical_data tz clock self time_range start_date end_date
         in if \<exists>r\<in>set table. in_window r \<and> (temperature r \<noteq> None \<or> humidity r \<noteq> None)
                  \<and> parse_db_timestamp (timestamp r) = None
            then result = Some Empty_dict
            else \<exists>rows temp hum.
                   result = Some (Hist \<lparr>temperature_history = temp, humidity_history = hum\<rparr>)
                 \<and> set rows = {r \<in> set table. in_window r}
                 \<and> length rows = length (filter in_window table)
                 \<and> sorted (map instant rows)
                 \<and> temp = concat (map (\<lambda>r. case row_point r (temperature r) of
                                              None \<Rightarrow> [] | Some ps \<Rightarrow> ps) rows)
                 \<and> hum = concat (map (\<lambda>r. case row_point r (humidity r) of
                                             None \<Rightarrow> [] | Some ps \<Rightarrow> ps) rows)
                 \<and> set temp =
                     {\<lparr>pt_device_name = device_name r, pt_timestamp = d, pt_value = v\<rparr> | r d v.
                        r \<in> set table \<and> in_window r \<and> temperature r = Some v
                        \<and> parse_db_timestamp (timestamp r) = Some d}
                 \<and> set hum =
                     {\<lparr>pt_device_name = device_name r, pt_timestamp = d, pt_value = v\<rparr> | r d v.
                        r \<in> set table \<and> in_window r \<and> humidity r = Some v
                        \<and> parse_db_timestamp (timestamp r) = Some d}
                 \<and> length temp = length (filter (\<lambda>r. in_window r \<and> temperature r \<noteq> None) table)
                 \<and> length hum = length (filter (\<lambda>r. in_window r \<and> humidity r \<noteq> None) table)
                 \<and> ((\<forall>r\<in>set table. \<forall>d. parse_db_timestamp (timestamp r) = Some d
                          \<longrightarrow> utc_instant d = instant r)
                      \<longrightarrow> sorted (map (\<lambda>p. utc_instant (pt_timestamp p)) temp)
                          \<and> sorted (map (\<lambda>p. utc_instant (pt_timestamp p)) hum))"
proof -
  define in_window :: "reading \<Rightarrow> bool" where
    "in_window = (\<lambda>r. utc_instant since \<le> instant r \<and> instant r \<le> utc_instant until)"
  define rows where "rows = sort_key instant (filter in_window table)"
  define tp where "tp = (\<lambda>r. case row_point r (temperature r) of None \<Rightarrow> [] | Some ps \<Rightarrow> ps)"
  define hp where "hp = (\<lambda>r. case row_point r (humidity r) of None \<Rightarrow> [] | Some ps \<Rightarrow> ps)"
  have q: "query_history sb since until = Some rows"
    unfolding rows_def in_window_def by (rule query_history_eq [OF assms(2)])
  have result: "fetch_historical_data tz clock self time_range start_date end_date =
      Some (case group_rows rows of None \<Rightarrow> Empty_dict
            | Some (temp_data, humidity_data) \<Rightarrow>
                Hist \<lparr>temperature_history = temp_data, humidity_history = humidity_data\<rparr>)"
    by (simp add: fetch_historical_data_def assms(1,3) q)
  have set_rows: "set rows = {r \<in> set table. in_window r}"
    by (auto simp: rows_def)
  have len_rows: "length rows = length (filter in_window table)"
    by (simp add: rows_def)
  have sorted_rows: "sorted (map instant rows)"
    by (simp add: rows_def)
  have len_filter: "length (filter Q rows) = length (filter (\<lambda>r. in_window r \<and> Q r) table)" for Q
  proof -
    have "filter Q rows = sort_key instant (filter Q (filter in_window table))"
      by (simp add: rows_def filter_sort)
    then have "length (filter Q rows) = length (filter Q (filter in_window table))" by simp
    then show ?thesis by (simp add: conj_commute)
  qed
  show ?thesis
  proof (cases "\<exists>r\<in>set table. in_window r \<and> (temperature r \<noteq> None \<or> humidity r \<noteq> None)
                  \<and> parse_db_timestamp (timestamp r) = None")
    case True
    then obtain r where r: "r \<in> set rows"
      and "row_point r (temperature r) = None \<or> row_point r (humidity r) = None"
      by (auto simp: set_rows row_point_None)
    then have "group_rows rows = None" by (rule group_rows_fail)
    with result have R: "fetch_historical_data tz clock self time_range start_date end_date =
        Some Empty_dict" by simp
    show ?thesis
      unfolding Let_def using True R unfolding in_window_def
      by (rule iffD2 [OF if_P])
  next
    case False
    then have ok: "\<forall>r\<in>set rows. row_point r (temperature r) \<noteq> None
                      \<and> row_point r (humidity r) \<noteq> None"
      by (auto simp: set_rows row_point_None)
    from group_rows_ok [OF this] result
    have res: "fetch_historical_data tz clock self time_range start_date end_date =
        Some (Hist \<lparr>temperature_history = concat (map tp rows),
                    humidity_history = concat (map hp rows)\<rparr>)"
      by (simp add: tp_def hp_def)
    have set_t: "set (concat (map tp rows)) =
        {\<lparr>pt_device_name = device_name r, pt_timestamp = d, pt_value = v\<rparr> | r d v.
           r \<in> set table \<and> in_window r \<and> temperature r = Some v
           \<and> parse_db_timestamp (timestamp r) = Some d}"
      unfolding tp_def set_row_points set_rows by blast
    have set_h: "set (concat (map hp rows)) =
        {\<lparr>pt_device_name = device_name r, pt_timestamp = d, pt_value = v\<rparr> | r d v.
           r \<in> set table \<and> in_window r \<and> humidity r = Some v
           \<and> parse_db_timestamp (timestamp r) = Some d}"
      unfolding hp_def set_row_points set_rows by blast
    have len_t: "length (concat (map tp rows)) =
        length (filter (\<lambda>r. in_window r \<and> temperature r \<noteq> None) table)"
      unfolding tp_def using ok by (simp add: length_row_points len_filter)
    have len_h: "length (concat (map hp rows)) =
        length (filter (\<lambda>r. in_window r \<and> humidity r \<noteq> None) table)"
      unfolding hp_def using ok by (simp add: length_row_points len_filter)
    have srt: "sorted (map (\<lambda>p. utc_instant (pt_timestamp p)) (concat (map tp rows)))
             \<and> sorted (map (\<lambda>p. utc_instant (pt_timestamp p)) (concat (map hp rows)))"
      if c: "\<forall>r\<in>set table. \<forall>d. parse_db_timestamp (timestamp r) = Some d
                \<longrightarrow> utc_instant d = instant r"
    proof -
      have k: "\<forall>r\<in>set rows. \<forall>p\<in>set (case row_point r m of None \<Rightarrow> [] | Some ps \<Rightarrow> ps).
                 utc_instant (pt_timestamp p) = instant r" for m
        using c by (auto simp: set_row_point set_rows)
      have "\<forall>r\<in>set rows. \<forall>p\<in>set (tp r). utc_instant (pt_timestamp p) = instant r"
        "\<forall>r\<in>set rows. \<forall>p\<in>set (hp r). utc_instant (pt_timestamp p) = instant r"
        unfolding tp_def hp_def using k by blast+
      with sorted_rows show ?thesis
        by (simp add: sorted_row_points)
    qed
    have E: "\<exists>rows temp hum.
            fetch_historical_data tz clock self time_range start_date end_date =
              Some (Hist \<lparr>temperature_history = temp, humidity_history = hum\<rparr>)
          \<and> set rows = {r \<in> set table. in_window r}
          \<and> length rows = length (filter in_window table)
          \<and> sorted (map instant rows)
          \<and> temp = concat (map tp rows)
          \<and> hum = concat (map hp rows)
          \<and> set temp =
              {\<lparr>pt_device_name = device_name r, pt_timestamp = d, pt_value = v\<rparr> | r d v.
                 r \<in> set table \<and> in_window r \<and> temperature r = Some v
                 \<and> parse_db_timestamp (timestamp r) = Some d}
          \<and> set hum =
              {\<lparr>pt_device_name = device_name r, pt_timestamp = d, pt_value = v\<rparr> | r d v.
                 r \<in> set table \<and> in_window r \<and> humidity r = Some v
                 \<and> parse_db_timestamp (timestamp r) = Some d}
          \<and> length temp = length (filter (\<lambda>r. in_window r \<and> temperature r \<noteq> None) table)
          \<and> length hum = length (filter (\<lambda>r. in_window r \<and> humidity r \<noteq> None) table)
          \<and> ((\<forall>r\<in>set table. \<forall>d. parse_db_timestamp (timestamp r) = Some d
                   \<longrightarrow> utc_instant d = instant r)
               \<longrightarrow> sorted (map (\<lambda>p. utc_instant (pt_timestamp p)) temp)
                   \<and> sorted (map (\<lambda>p. utc_instant (pt_timestamp p)) hum))"
      apply (intro exI conjI)
                apply (rule res)
               apply (rule set_rows)
              apply (rule len_rows)
             apply (rule sorted_rows)
            apply (rule refl)
           apply (rule refl)
          apply (rule set_t)
         apply (rule set_h)
        apply (rule len_t)
       apply (rule len_h)
      apply (rule impI)
      apply (erule srt)
      done
    show ?thesis
      unfolding Let_def using False E unfolding in_window_def tp_def hp_def
      by (rule iffD2 [OF if_not_P])
  qed
qed

theorem C2_fetch_historical_data_witness:
  "(\<exists>temp hum.
      fetch_historical_data (fixed_zone 7200000000) 63840909600000000
        (init_dashboard (Some \<lparr>devices = Some [],
           sensor_readings =
             Some [\<lparr>device_name = ''Attic'', instant = 63840736800000000,
                    timestamp = ''2024-01-13T10:00:00+00:00'',
                    temperature = Some 19, humidity = Some 55\<rparr>,
                   \<lparr>device_name = ''Attic'', instant = 63840823200000000,
                    timestamp = ''2024-01-14T10:00:00+00:00'',
                    temperature = Some 20, humidity = None\<rparr>]\<rparr>))
        ''custom'' (Some ''2024-01-14'') (Some ''2024-01-15'') =
        Some (Hist \<lparr>temperature_history = temp, humidity_history = hum\<rparr>)
      \<and> length temp = 1 \<and> length hum = 0)
   \<and> fetch_historical_data (fixed_zone 7200000000) 63840909600000000
        (init_dashboard (Some \<lparr>devices = Some [],
           sensor_readings =
             Some [\<lparr>device_name = ''Attic'', instant = 63840823200000000,
                    timestamp = ''2024-01-14T10:00:00+00:00'',
                    temperature = Some 20, humidity = None\<rparr>,
                   \<lparr>device_name = ''Attic'', instant = 63840826800123450,
                    timestamp = ''2024-01-14T11:00:00.12345+00:00'',
                    temperature = Some 21, humidity = None\<rparr>]\<rparr>))
        ''custom'' (Some ''2024-01-14'') (Some ''2024-01-15'') = Some Empty_dict"
proof -
  let ?table = "[\<lparr>device_name = ''Attic'', instant = 63840736800000000,
                   timestamp = ''2024-01-13T10:00:00+00:00'',
                   temperature = Some 19, humidity = Some 55\<rparr>,
                 \<lparr>device_name = ''Attic'', instant = 63840823200000000,
                   timestamp = ''2024-01-14T10:00:00+00:00'',
                   temperature = Some (20 :: rat), humidity = None\<rparr>]"
  let ?table' = "[\<lparr>device_name = ''Attic'', instant = 63840823200000000,
                    timestamp = ''2024-01-14T10:00:00+00:00'',
                    temperature = Some (20 :: rat), humidity = None\<rparr>,
                  \<lparr>device_name = ''Attic'', instant = 63840826800123450,
                    timestamp = ''2024-01-14T11:00:00.12345+00:00'',
                    temperature = Some 21, humidity = None\<rparr>]"
  let ?sb = "\<lparr>devices = Some [], sensor_readings = Some ?table\<rparr>"
  let ?sb' = "\<lparr>devices = Some [], sensor_readings = Some ?table'\<rparr>"
  let ?since = "\<lparr>wall = 63840787200000000, tzinfo = Some 7200000000\<rparr>"
  let ?until = "\<lparr>wall = 63840873600000000, tzinfo = Some 7200000000\<rparr>"
  have w: "resolve_window (fixed_zone 7200000000) 63840909600000000 ''custom''
             (Some ''2024-01-14'') (Some ''2024-01-15'') = Some (?since, ?until)"
    by (simp add: resolve_window_def custom_dates_def parse_eval localize_def fixed_zone_def)
  have s: "supabase (init_dashboard (Some ?sb)) = Some ?sb"
    by (simp add: init_dashboard_def)
  have s': "supabase (init_dashboard (Some ?sb')) = Some ?sb'"
    by (simp add: init_dashboard_def)
  have t: "sensor_readings ?sb = Some ?table" by simp
  have t': "sensor_readings ?sb' = Some ?table'" by simp
  have c: "\<not> (\<exists>r\<in>set ?table.
               (utc_instant ?since \<le> instant r \<and> instant r \<le> utc_instant ?until)
             \<and> (temperature r \<noteq> None \<or> humidity r \<noteq> None)
             \<and> parse_db_timestamp (timestamp r) = None)"
    by (simp add: parse_db_timestamp_def string_eval parse_eval utc_instant_def)
  have c': "\<exists>r\<in>set ?table'.
               (utc_instant ?since \<le> instant r \<and> instant r \<le> utc_instant ?until)
             \<and> (temperature r \<noteq> None \<or> humidity r \<noteq> None)
             \<and> parse_db_timestamp (timestamp r) = None"
    by (simp add: parse_db_timestamp_def string_eval parse_eval utc_instant_def)
  have lt: "length (filter (\<lambda>r. (utc_instant ?since \<le> instant r \<and> instant r \<le> utc_instant ?until)
              \<and> temperature r \<noteq> None) ?table) = 1"
    by (simp add: utc_instant_def)
  have lh: "length (filter (\<lambda>r. (utc_instant ?since \<le> instant r \<and> instant r \<le> utc_instant ?until)
              \<and> humidity r \<noteq> None) ?table) = 0"
    by (simp add: utc_instant_def)
  from iffD1 [OF if_not_P [OF c] C2_fetch_historical_data [OF s t w, unfolded Let_def]]
  obtain temp hum where
    f: "fetch_historical_data (fixed_zone 7200000000) 63840909600000000
       (init_dashboard (Some ?sb)) ''custom'' (Some ''2024-01-14'') (Some ''2024-01-15'') =
       Some (Hist \<lparr>temperature_history = temp, humidity_history = hum\<rparr>)"
    and "length temp = length (filter (\<lambda>r. (utc_instant ?since \<le> instant r
                \<and> instant r \<le> utc_instant ?until) \<and> temperature r \<noteq> None) ?table)"
    and "length hum = length (filter (\<lambda>r. (utc_instant ?since \<le> instant r
                \<and> instant r \<le> utc_instant ?until) \<and> humidity r \<noteq> None) ?table)"
    by (elim exE conjE)
  then have "length temp = 1" "length hum = 0"
    unfolding lt lh by simp_all
  with f have first: "\<exists>temp hum.
      fetch_historical_data (fixed_zone 7200000000) 63840909600000000
        (init_dashboard (Some ?sb)) ''custom'' (Some ''2024-01-14'') (Some ''2024-01-15'') =
        Some (Hist \<lparr>temperature_history = temp, humidity_history = hum\<rparr>)
      \<and> length temp = 1 \<and> length hum = 0"
    by (intro exI conjI)
  have second: "fetch_historical_data (fixed_zone 7200000000) 63840909600000000
        (init_dashboard (Some ?sb')) ''custom'' (Some ''2024-01-14'') (Some ''2024-01-15'') =
        Some Empty_dict"
    by (rule iffD1 [OF if_P [OF c'] C2_fetch_historical_data [OF s' t' w, unfolded Let_def]])
  from first second show ?thesis by (rule conjI)
qed

text \<open>
  A row stamped exactly at the end of a custom window (midnight, local time) is
  returned: the upper bound is \<^verbatim>\<open>lte\<close>, so the interval is closed.
\<close>

theorem C2_until_included_counterexample:
  "resolve_window (fixed_zone 7200000000) 63840909600000000 ''custom''
       (Some ''2024-01-14'') (Some ''2024-01-15'') =
     Some (\<lparr>wall = 63840787200000000, tzinfo = Some 7200000000\<rparr>,
           \<lparr>wall = 63840873600000000, tzinfo = Some 7200000000\<rparr>)
   \<and> instant \<lparr>device_name = ''Attic'', instant = 63840866400000000,
                timestamp = ''2024-01-14T22:00:00+00:00'',
                temperature = Some 21, humidity = None\<rparr> =
       utc_instant \<lparr>wall = 63840873600000000, tzinfo = Some 7200000000\<rparr>
   \<and> fetch_historical_data (fixed_zone 7200000000) 63840909600000000
       (init_dashboard (Some \<lparr>devices = Some [],
          sensor_readings =
            Some [\<lparr>device_name = ''Attic'', instant = 63840866400000000,
                   timestamp = ''2024-01-14T22:00:00+00:00'',
                   temperature = Some 21, humidity = None\<rparr>]\<rparr>))
       ''custom'' (Some ''2024-01-14'') (Some ''2024-01-15'') =
     Some (Hist \<lparr>temperature_history =
                   [\<lparr>pt_device_name = ''Attic'',
                     pt_timestamp = \<lparr>wall = 63840866400000000, tzinfo = Some 0\<rparr>,
                     pt_value = 21\<rparr>],
                 humidity_history = []\<rparr>)"
proof -
  have w: "resolve_window (fixed_zone 7200000000) 63840909600000000 ''custom''
             (Some ''2024-01-14'') (Some ''2024-01-15'') =
           Some (\<lparr>wall = 63840787200000000, tzinfo = Some 7200000000\<rparr>,
                 \<lparr>wall = 63840873600000000, tzinfo = Some 7200000000\<rparr>)"
    by (simp add: resolve_window_def custom_dates_def parse_eval localize_def fixed_zone_def)
  have p: "parse_db_timestamp ''2024-01-14T22:00:00+00:00'' =
      Some \<lparr>wall = 63840866400000000, tzinfo = Some 0\<rparr>"
    by (simp add: parse_db_timestamp_def string_eval parse_eval)
  show ?thesis
    by (simp add: w fetch_historical_data_def init_dashboard_def query_history_def
        order_timestamp_def lte_timestamp_def gte_timestamp_def p
        utc_instant_def row_point_def)
qed

section \<open>The two readings of the zero-offset marker\<close>

lemma replace_suffix:
  assumes "c \<notin> set body"
  shows "replace (c # rest) new (body @ c # rest) = body @ new"
  using assms
proof (induction body)
  case Nil
  then show ?case by simp
next
  case (Cons b body)
  then have "\<not> prefix (c # rest) (b # body @ c # rest)" by auto
  with Cons show ?case by simp
qed

lemma marker_suffixes:
  "endswith (body @ ''+00:00'') ''+00:00''"
  "endswith (body @ ''+00'') ''+00''"
  "\<not> endswith (body @ ''+00'') ''+00:00''"
  "\<not> endswith (body @ ''+00:00'') ''+00''"
proof -
  show "endswith (body @ ''+00:00'') ''+00:00''" "endswith (body @ ''+00'') ''+00''"
    by (simp_all add: endswith_def suffix_appendI)
  show "\<not> endswith (body @ ''+00'') ''+00:00''" "\<not> endswith (body @ ''+00:00'') ''+00''"
    unfolding endswith_def by (rule not_suffix_append; simp add: suffix_to_prefix)+
qed

lemma parse_offset_zero: "parse_offset (CHR ''+'') ''00:00'' = Some 0"
  by (simp add: parse_eval)

lemma parse_isoformat_time_marker:
  assumes "parse_isoformat_time tstr = Some (comps, None)"
  shows "parse_isoformat_time (tstr @ ''+00:00'') = Some (comps, Some 0)"
proof -
  let ?P = "\<lambda>c. \<not> is_sign c"
  from assms have c: "parse_hh_mm_ss_ff (takeWhile ?P tstr) = Some comps"
    and d: "dropWhile ?P tstr = []"
    by (auto simp: parse_isoformat_time_def split: bind_splits list.splits)
  from d have all: "\<And>x. x \<in> set tstr \<Longrightarrow> ?P x" by (simp add: dropWhile_eq_Nil_conv)
  then have t: "takeWhile ?P tstr = tstr" by (simp add: takeWhile_eq_all_conv)
  have t': "takeWhile ?P (tstr @ ''+00:00'') = tstr"
    using all by (simp add: takeWhile_append2 is_sign_def)
  have d': "dropWhile ?P (tstr @ ''+00:00'') = ''+00:00''"
    using all by (simp add: dropWhile_append2 is_sign_def)
  show ?thesis
    using c by (simp add: parse_isoformat_time_def t t' d' parse_offset_zero)
qed

lemma datetime_new_tz:
  "datetime_new y m d hh mm ss ff None = Some dt \<Longrightarrow>
     datetime_new y m d hh mm ss ff (Some off) = Some (dt\<lparr>tzinfo := Some off\<rparr>)"
  by (auto simp: datetime_new_def split: if_splits)

lemma fromisoformat_marker:
  assumes "fromisoformat body = Some d" and "tzinfo d = None" and "drop 11 body \<noteq> []"
  shows "fromisoformat (body @ ''+00:00'') = Some (d\<lparr>tzinfo := Some 0\<rparr>)"
proof -
  from assms(3) have len: "11 < length body" by simp
  from assms(1) len obtain y m dd comps tz
    where date: "parse_isoformat_date (take 10 body) = Some (y, m, dd)"
      and time: "parse_isoformat_time (drop 11 body) = Some (comps, tz)"
      and new: "(case comps of (hh, mm, ss, ff) \<Rightarrow> datetime_new y m dd hh mm ss ff tz) = Some d"
    by (auto simp: fromisoformat_def split: bind_splits if_splits prod.splits)
  obtain hh mm ss ff where comps: "comps = (hh, mm, ss, ff)" by (cases comps) auto
  from new comps have new': "datetime_new y m dd hh mm ss ff tz = Some d" by simp
  then have "tzinfo d = tz" by (auto simp: datetime_new_def split: if_splits)
  with assms(2) have tz: "tz = None" by simp
  from time tz have "parse_isoformat_time (drop 11 body @ ''+00:00'') = Some (comps, Some 0)"
    by (simp add: parse_isoformat_time_marker)
  moreover from new' tz have "datetime_new y m dd hh mm ss ff (Some 0) = Some (d\<lparr>tzinfo := Some 0\<rparr>)"
    by (simp add: datetime_new_tz)
  ultimately show ?thesis
    using len date comps by (simp add: fromisoformat_def)
qed


lemma corrected_timestamp_marker:
  assumes "fromisoformat body = Some d" and "tzinfo d = None" and "CHR ''+'' \<notin> set body"
    and "marker = ''+00:00'' \<or> marker = ''+00''"
  shows "corrected_timestamp tz (body @ marker) =
           Some (d\<lparr>tzinfo := Some (utcoffset_local tz (wall d))\<rparr>)"
proof -
  have "replace ''+00:00'' [] (body @ ''+00:00'') = body" "replace ''+00'' [] (body @ ''+00'') = body"
    using replace_suffix [OF assms(3), of "''00:00''" "[]"]
      replace_suffix [OF assms(3), of "''00''" "[]"] by simp_all
  with assms show ?thesis
    by (auto simp: corrected_timestamp_def marker_suffixes localize_def)
qed

lemma parse_db_timestamp_marker:
  assumes "fromisoformat body = Some d" and "tzinfo d = None" and "drop 11 body \<noteq> []"
    and "CHR ''+'' \<notin> set body" and "marker = ''+00:00'' \<or> marker = ''+00''"
  shows "parse_db_timestamp (body @ marker) = Some (d\<lparr>tzinfo := Some 0\<rparr>)"
proof -
  have "replace ''+00'' ''+00:00'' (body @ ''+00'') = body @ ''+00:00''"
    using replace_suffix [OF assms(4), of "''00''" "''+00:00''"] by simp
  with assms(5) fromisoformat_marker [OF assms(1-3)] show ?thesis
    by (auto simp: parse_db_timestamp_def marker_suffixes)
qed

text \<open>
  Claim C4. Let \<open>body\<close> be a well-formed naive timestamp with a time of day (and no
  \<^verbatim>\<open>+\<close> in it), and let the raw string be \<open>body\<close> followed by the marker \<^verbatim>\<open>+00:00\<close> or
  \<^verbatim>\<open>+00\<close>. The latest-readings path (\<^verbatim>\<open>format_timestamp\<close>) keeps the wall clock of \<open>body\<close>
  and attaches the local zone's offset; the historical path keeps the same wall clock
  with the offset zero, and puts that value in the series. The instant of the
  historical path is later than the instant of the latest-readings path by exactly the
  local offset, so the two differ whenever that offset is not zero.
\<close>

theorem C4_marker_asymmetry:
  assumes "fromisoformat body = Some d" and "tzinfo d = None" and "drop 11 body \<noteq> []"
    and "CHR ''+'' \<notin> set body" and "marker = ''+00:00'' \<or> marker = ''+00''"
    and "timestamp r = body @ marker"
  shows "\<exists>latest hist.
           corrected_timestamp tz (body @ marker) = Some latest
         \<and> parse_db_timestamp (body @ marker) = Some hist
         \<and> row_point r (Some v) =
             Some [\<lparr>pt_device_name = device_name r, pt_timestamp = hist, pt_value = v\<rparr>]
         \<and> wall latest = wall d \<and> tzinfo latest = Some (utcoffset_local tz (wall d))
         \<and> wall hist = wall d \<and> tzinfo hist = Some 0
         \<and> utc_instant hist - utc_instant latest = utcoffset_local tz (wall d)
         \<and> (utcoffset_local tz (wall d) \<noteq> 0 \<longrightarrow> utc_instant hist \<noteq> utc_instant latest)"
proof -
  note l = corrected_timestamp_marker [OF assms(1,2,4,5), of tz]
  note h = parse_db_timestamp_marker [OF assms(1-5)]
  show ?thesis
    by (simp add: l h row_point_def assms(6) utc_instant_def)
qed

theorem C4_marker_asymmetry_witness:
  "corrected_timestamp (fixed_zone 7200000000) ''2024-01-15T09:30:00+00'' =
     Some \<lparr>wall = 63840907800000000, tzinfo = Some 7200000000\<rparr>
   \<and> parse_db_timestamp ''2024-01-15T09:30:00+00'' =
     Some \<lparr>wall = 63840907800000000, tzinfo = Some 0\<rparr>
   \<and> utc_instant \<lparr>wall = 63840907800000000, tzinfo = Some 0\<rparr>
       - utc_instant \<lparr>wall = 63840907800000000, tzinfo = Some 7200000000\<rparr> = 7200000000"
proof -
  have b: "fromisoformat ''2024-01-15T09:30:00'' = Some \<lparr>wall = 63840907800000000, tzinfo = None\<rparr>"
    by (simp add: parse_eval)
  from C4_marker_asymmetry [OF b, of "''+00''"
      "\<lparr>device_name = ''Attic'', instant = 63840907800000000,
        timestamp = ''2024-01-15T09:30:00+00'', temperature = Some 20, humidity = None\<rparr>" "fixed_zone 7200000000" 20]
  obtain latest hist where
    "corrected_timestamp (fixed_zone 7200000000) ''2024-01-15T09:30:00+00'' = Some latest"
    "parse_db_timestamp ''2024-01-15T09:30:00+00'' = Some hist"
    "wall latest = 63840907800000000" "tzinfo latest = Some 7200000000"
    "wall hist = 63840907800000000" "tzinfo hist = Some 0"
    by (auto simp: fixed_zone_def)
  then show ?thesis
    by (simp add: utc_instant_def)
qed

section \<open>Properties of the calendar and of \<^verbatim>\<open>strftime\<close>\<close>










lemma days_in_month_le: "1 \<le> m \<Longrightarrow> m \<le> 12 \<Longrightarrow> days_in_month y m \<le> 31"
proof -
  assume "1 \<le> m" "m \<le> 12"
  then have "m \<in> {1, 2, 3, 4, 5, 6, 7, 8, 9, 10, 11, 12}" by simp arith
  then show ?thesis
    by (elim insertE emptyE) (simp_all add: days_in_month_def)
qed










section \<open>Properties of the export\<close>



















end
